theory Spec2Isabelle
  imports Complex_Main
begin

section \<open>JavaScript values used by the symptom-checker chatbot\<close>

subsection \<open>Strings\<close>

text \<open>
  A JavaScript string is modelled as a \<open>string\<close> (a list of 8-bit characters). The
  patterns the chatbot searches for are ASCII, and an ASCII byte never occurs inside the
  UTF-8 encoding of another character, so substring tests on the bytes agree with the
  tests on the UTF-16 code units. \<open>toLowerCase\<close> and \<open>toUpperCase\<close> change the
  ASCII letters and leave every other character as it is.
\<close>

definition lower_char :: "char \<Rightarrow> char" where
  "lower_char c =
     (case map_of (zip ''ABCDEFGHIJKLMNOPQRSTUVWXYZ'' ''abcdefghijklmnopqrstuvwxyz'') c of
        Some d \<Rightarrow> d
      | None \<Rightarrow> c)"

definition upper_char :: "char \<Rightarrow> char" where
  "upper_char c =
     (case map_of (zip ''abcdefghijklmnopqrstuvwxyz'' ''ABCDEFGHIJKLMNOPQRSTUVWXYZ'') c of
        Some d \<Rightarrow> d
      | None \<Rightarrow> c)"

definition toLowerCase :: "string \<Rightarrow> string" where
  "toLowerCase s = map lower_char s"

definition toUpperCase :: "string \<Rightarrow> string" where
  "toUpperCase s = map upper_char s"

text \<open>\<open>s.startsWith(p)\<close> and \<open>s.includes(p)\<close>.\<close>

fun startsWith :: "string \<Rightarrow> string \<Rightarrow> bool" where
  "startsWith s [] = True"
| "startsWith [] (p # ps) = False"
| "startsWith (c # cs) (p # ps) = (c = p \<and> startsWith cs ps)"

fun includes_str :: "string \<Rightarrow> string \<Rightarrow> bool" where
  "includes_str [] p = (p = [])"
| "includes_str (c # cs) p = (startsWith (c # cs) p \<or> includes_str cs p)"

text \<open>\<open>s.trim()\<close>, on the ASCII white space characters.\<close>

definition is_space :: "char \<Rightarrow> bool" where
  "is_space c = (c \<in> set [CHR '' '', CHR 0x09, CHR 0x0A, CHR 0x0B, CHR 0x0C, CHR 0x0D])"

definition trimStart :: "string \<Rightarrow> string" where
  "trimStart s = dropWhile is_space s"

definition trim :: "string \<Rightarrow> string" where
  "trim s = rev (dropWhile is_space (rev (dropWhile is_space s)))"

text \<open>\<open>n.toString()\<close> of a natural number, as \<open>Date.now()\<close> is.\<close>

fun toString :: "nat \<Rightarrow> string" where
  "toString n =
     (if n < 10 then [''0123456789'' ! n]
      else toString (n div 10) @ [''0123456789'' ! (n mod 10)])"

declare toString.simps [simp del]

text \<open>
  \<open>a || b\<close> on an optional string: \<open>undefined\<close> and the empty string are falsy.
\<close>

definition or_else :: "string option \<Rightarrow> string \<Rightarrow> string" where
  "or_else a b = (case a of Some s \<Rightarrow> (if s = [] then b else s) | None \<Rightarrow> b)"

subsection \<open>Numbers\<close>

text \<open>
  A JavaScript number is \<open>NaN\<close>, an infinity or a finite double. Every finite double
  is a rational number and comparison of doubles is exact, so a finite number is
  modelled by its rational value (\<open>-0\<close> as \<open>0\<close>, which compare equal).
\<close>

datatype jsnum = NaN | NegInf | Fin rat | PosInf

text \<open>\<open>a > b\<close> and \<open>a <= b\<close>: both are false when an operand is \<open>NaN\<close>.\<close>

fun js_gt :: "jsnum \<Rightarrow> jsnum \<Rightarrow> bool" where
  "js_gt NaN b = False"
| "js_gt a NaN = False"
| "js_gt PosInf b = (b \<noteq> PosInf)"
| "js_gt NegInf b = False"
| "js_gt (Fin x) NegInf = True"
| "js_gt (Fin x) PosInf = False"
| "js_gt (Fin x) (Fin y) = (y < x)"

fun js_le :: "jsnum \<Rightarrow> jsnum \<Rightarrow> bool" where
  "js_le NaN b = False"
| "js_le a NaN = False"
| "js_le NegInf b = True"
| "js_le PosInf b = (b = PosInf)"
| "js_le (Fin x) NegInf = False"
| "js_le (Fin x) PosInf = True"
| "js_le (Fin x) (Fin y) = (x \<le> y)"

definition isNaN :: "jsnum \<Rightarrow> bool" where
  "isNaN t = (t = NaN)"

subsection \<open>A \<open>parseFloat\<close> for decimal literals\<close>

text \<open>
  \<open>parseFloat\<close> belongs to the JavaScript runtime, not to the repository: the engine
  below takes it as a parameter. \<open>parseFloat_exact\<close> is an executable instance that
  follows the grammar of ECMAScript's \<open>StrDecimalLiteral\<close> (leading white space, a
  sign, \<open>Infinity\<close> or digits with an optional fraction and exponent; the longest prefix
  that matches is read, no match gives \<open>NaN\<close>) and returns the exact value of the
  literal. The runtime rounds that value to the nearest double, which changes nothing
  for a literal such as \<open>39.5\<close> or \<open>38\<close> whose value is a double.
\<close>

definition is_digit :: "char \<Rightarrow> bool" where
  "is_digit c = (c \<in> set ''0123456789'')"

definition digit_val :: "char \<Rightarrow> nat" where
  "digit_val c = of_char c - 48"

definition digits_val :: "string \<Rightarrow> nat" where
  "digits_val ds = foldl (\<lambda>n c. 10 * n + digit_val c) 0 ds"

definition exponent_part :: "string \<Rightarrow> int" where
  "exponent_part r =
     (case r of
        [] \<Rightarrow> 0
      | c # r1 \<Rightarrow>
          if c = CHR ''e'' \<or> c = CHR ''E'' then
            (case r1 of
               [] \<Rightarrow> 0
             | s # r2 \<Rightarrow>
                 if s = CHR ''-'' then - int (digits_val (takeWhile is_digit r2))
                 else if s = CHR ''+'' then int (digits_val (takeWhile is_digit r2))
                 else int (digits_val (takeWhile is_digit r1)))
          else 0)"

definition scale10 :: "rat \<Rightarrow> int \<Rightarrow> rat" where
  "scale10 m e = (if 0 \<le> e then m * 10 ^ nat e else m / 10 ^ nat (- e))"

definition unsigned_literal :: "string \<Rightarrow> jsnum" where
  "unsigned_literal s =
     (if startsWith s ''Infinity'' then PosInf
      else
        let ip = takeWhile is_digit s;
            r1 = dropWhile is_digit s;
            fp = (case r1 of [] \<Rightarrow> []
                  | c # r \<Rightarrow> if c = CHR ''.'' then takeWhile is_digit r else []);
            r2 = (case r1 of [] \<Rightarrow> []
                  | c # r \<Rightarrow> if c = CHR ''.'' then dropWhile is_digit r else r1)
        in if ip = [] \<and> fp = [] then NaN
           else Fin (scale10 (of_nat (digits_val (ip @ fp)))
                             (exponent_part r2 - int (length fp))))"

fun negate :: "jsnum \<Rightarrow> jsnum" where
  "negate NaN = NaN"
| "negate NegInf = PosInf"
| "negate PosInf = NegInf"
| "negate (Fin x) = Fin (- x)"

definition parseFloat_exact :: "string \<Rightarrow> jsnum" where
  "parseFloat_exact s =
     (case trimStart s of
        [] \<Rightarrow> NaN
      | c # r \<Rightarrow>
          if c = CHR ''-'' then negate (unsigned_literal r)
          else if c = CHR ''+'' then unsigned_literal r
          else unsigned_literal (c # r))"

section \<open>The data of a conversation\<close>

text \<open>
  The objects the component builds: the question attached to a bot message, the
  analysis that ends an assessment, a chat message, and the values stored in
  \<open>sessionData\<close>.
\<close>

record question =
  q_type :: "string option"
  q_key :: "string option"
  q_question :: "string option"
  q_options :: "string list option"

record analysis =
  risk_score :: int
  risk_level :: string
  suspected_fever_type :: string
  recommendation :: string

datatype sender = Bot | User

record message =
  m_id :: string
  m_text :: string
  m_sender :: sender
  m_timestamp :: nat
  m_question :: "question option"
  m_analysis :: "analysis option"

datatype jsval = JBool bool | JStr string | JNum jsnum

text \<open>
  The component state of \<open>Chatbot\<close>, one field for each \<open>useState\<close>; \<open>null\<close> is
  \<open>None\<close>. Both copies of the component declare the same eight fields.
\<close>

record chat_state =
  messages :: "message list"
  input :: string
  loading :: bool
  sessionId :: "string option"
  currentStep :: string
  sessionData :: "string \<rightharpoonup> jsval"
  completed :: bool
  error :: "string option"

definition initial_state :: chat_state where
  "initial_state =
     \<lparr>messages = [], input = [], loading = False, sessionId = None,
      currentStep = ''start'', sessionData = Map.empty, completed = False,
      error = None\<rparr>"

section \<open>The environment of the component\<close>

text \<open>
  What a handler reads from outside the component state: the clock (\<open>Date.now()\<close>;
  one reading for each run of a handler), whether the \<open>onComplete\<close> prop was passed,
  the runtime's \<open>parseFloat\<close>, the outcome of each \<open>fetch\<close>, and whether
  reading the token from \<open>localStorage\<close> throws (the stored item is not the JSON
  of an object). A \<open>fetch\<close> rejects (transport error, timeout of the browser),
  answers with a status that is not \<open>ok\<close>, answers \<open>ok\<close> with a body that
  \<open>response.json()\<close> cannot give as an object, or answers \<open>ok\<close> with the parsed
  body. The callback \<open>onComplete\<close> is taken not to throw.
\<close>

datatype 'a reply = Rejected | Not_ok | Bad_body | Ok 'a

record start_data =
  sd_session_id :: "string option"
  sd_current_step :: "string option"
  sd_message :: "string option"
  sd_next_question :: "question option"
  sd_question :: "question option"

record message_data =
  md_session_data :: "(string \<rightharpoonup> jsval) option"
  md_message :: "string option"
  md_response :: "string option"
  md_next_question :: "question option"
  md_question :: "question option"
  md_analysis :: "analysis option"
  md_completed :: bool
  md_next_step :: "string option"

record env =
  now :: nat
  has_onComplete :: bool
  parseFloat :: "string \<Rightarrow> jsnum"
  start_reply :: "start_data reply"
  message_reply :: "message_data reply"
  report_reply :: "unit reply"
  auth_unreadable :: bool

text \<open>
  What a handler does to the outside: the requests it sends (with the session id, the
  answer and the analysis they carry), the call of \<open>onComplete\<close>, and the lines it
  writes to the console.
\<close>

datatype effect =
    Fetch_start_session
  | Fetch_message "string option" string
  | Fetch_submit_report string analysis
  | OnComplete analysis
  | Console_warn string
  | Console_error string

section \<open>The patient portal's chatbot (\<open>patient-portal/src/components/Chatbot.jsx\<close>)\<close>

definition welcome_text :: string where
  "welcome_text =
     ''Hello! I'm here to help assess your symptoms. Do you currently have a fever?''"

definition welcome_message :: "env \<Rightarrow> message" where
  "welcome_message e =
     \<lparr>m_id = ''1'', m_text = welcome_text, m_sender = Bot, m_timestamp = now e,
      m_question = Some \<lparr>q_type = Some ''yes_no'', q_key = Some ''has_fever'',
                         q_question = Some ''Do you currently have a fever?'',
                         q_options = Some [''Yes'', ''No'']\<rparr>,
      m_analysis = None\<rparr>"

text \<open>
  \<open>startSession\<close>. The reply \<open>ok\<close> with a body takes the session from the backend
  and returns. Every other outcome reaches the fallback after the inner \<open>try\<close>: a
  rejected \<open>fetch\<close> and a body that cannot be read are caught (and logged with
  \<open>console.warn\<close>), a status that is not \<open>ok\<close> skips the \<open>if\<close>. Nothing in the
  fallback throws, so the outer \<open>catch\<close> is not reached; \<open>finally\<close> clears
  \<open>loading\<close>.
\<close>

definition startSession :: "env \<Rightarrow> chat_state \<Rightarrow> chat_state \<times> effect list" where
  "startSession e st =
     (let st1 = st\<lparr>loading := True, error := None\<rparr>;
          fallback = st1\<lparr>sessionId := Some (''local-'' @ toString (now e)),
                         currentStep := ''start'',
                         messages := [welcome_message e],
                         loading := False\<rparr>
      in case start_reply e of
           Ok data \<Rightarrow>
             (st1\<lparr>sessionId := sd_session_id data,
                  currentStep := or_else (sd_current_step data) ''start'',
                  messages :=
                    [\<lparr>m_id = ''1'',
                      m_text = or_else (sd_message data)
                                 (or_else (case sd_next_question data of
                                             None \<Rightarrow> None
                                           | Some q \<Rightarrow> q_question q)
                                          welcome_text),
                      m_sender = Bot, m_timestamp = now e,
                      m_question = (case sd_next_question data of
                                      Some q \<Rightarrow> Some q
                                    | None \<Rightarrow> sd_question data),
                      m_analysis = None\<rparr>],
                  loading := False\<rparr>,
              [Fetch_start_session])
         | Not_ok \<Rightarrow> (fallback, [Fetch_start_session])
         | Rejected \<Rightarrow>
             (fallback,
              [Fetch_start_session, Console_warn ''Backend not available, using local mode:''])
         | Bad_body \<Rightarrow>
             (fallback,
              [Fetch_start_session, Console_warn ''Backend not available, using local mode:'']))"

text \<open>
  The bot messages of the local engine: the id is \<open>(Date.now() + 1).toString()\<close>.
\<close>

definition bot_message ::
  "env \<Rightarrow> string \<Rightarrow> question option \<Rightarrow> analysis option \<Rightarrow> message" where
  "bot_message e txt q a =
     \<lparr>m_id = toString (now e + 1), m_text = txt, m_sender = Bot, m_timestamp = now e,
      m_question = q, m_analysis = a\<rparr>"

text \<open>
  \<open>handleLocalResponse\<close>, the rule-based engine. It reads \<open>currentStep\<close> and
  \<open>sessionData\<close>, writes \<open>sessionData\<close>, \<open>currentStep\<close>, \<open>completed\<close>, appends one
  bot message and calls \<open>onComplete\<close> when the prop is there. The chain of \<open>if\<close>s has
  no final \<open>else\<close>: a step that none of the four tests names changes nothing. (The
  unused local \<open>currentData\<close> is left out.)
\<close>

definition handleLocalResponse ::
  "env \<Rightarrow> chat_state \<Rightarrow> string \<Rightarrow> chat_state \<times> effect list" where
  "handleLocalResponse e st txt =
     (let lowerText = toLowerCase txt in
      if currentStep st = ''start'' \<or> currentStep st = ''has_fever'' then
        if includes_str lowerText ''yes'' \<or> includes_str lowerText ''yep''
           \<or> lowerText = ''y'' then
          (st\<lparr>sessionData := (sessionData st)(''has_fever'' \<mapsto> JBool True),
              currentStep := ''fever_duration'',
              messages := messages st @
                [bot_message e ''How long have you had the fever?''
                   (Some \<lparr>q_type = Some ''choice'', q_key = Some ''fever_duration'',
                          q_question = None,
                          q_options = Some [''Less than 1 day'', ''1-3 days'',
                                            ''4-7 days'', ''More than 7 days'']\<rparr>)
                   None]\<rparr>,
           [])
        else if includes_str lowerText ''no'' \<or> includes_str lowerText ''nope''
                \<or> lowerText = ''n'' then
          (st\<lparr>sessionData := (sessionData st)(''has_fever'' \<mapsto> JBool False),
              currentStep := ''other_symptoms'',
              messages := messages st @
                [bot_message e
                   ''Do you have any other symptoms like headache, body ache, or fatigue?''
                   (Some \<lparr>q_type = Some ''yes_no'', q_key = Some ''other_symptoms'',
                          q_question = None, q_options = None\<rparr>)
                   None]\<rparr>,
           [])
        else
          (st\<lparr>messages := messages st @
                [bot_message e ''Please answer with Yes or No.'' None None]\<rparr>,
           [])
      else if currentStep st = ''fever_duration'' then
        (st\<lparr>sessionData := (sessionData st)(''fever_duration'' \<mapsto> JStr txt),
            currentStep := ''temperature'',
            messages := messages st @
              [bot_message e ''What is your current body temperature? (in Celsius)''
                 None None]\<rparr>,
         [])
      else if currentStep st = ''temperature'' then
        (let temp = parseFloat e txt in
         if \<not> isNaN temp then
           (let riskScore = (if js_gt temp (Fin 39) then 75
                             else if js_gt temp (Fin 38) then 50 else 30);
                riskLevel = (if riskScore > 70 then ''high''
                             else if riskScore > 50 then ''medium'' else ''low'');
                analysis =
                  \<lparr>risk_score = riskScore, risk_level = riskLevel,
                   suspected_fever_type = ''Viral Fever'',
                   recommendation =
                     (if riskLevel = ''high'' then
                        ''Please consult a doctor immediately. Your temperature is high and requires medical attention.''
                      else if riskLevel = ''medium'' then
                        ''Monitor your symptoms and consider consulting a doctor if they worsen.''
                      else ''Rest and stay hydrated. Monitor your symptoms.'')\<rparr>
            in (st\<lparr>sessionData := (sessionData st)(''temperature'' \<mapsto> JNum temp),
                   currentStep := ''complete'',
                   completed := True,
                   messages := messages st @
                     [bot_message e
                        (''Based on your symptoms, your risk level is ''
                           @ toUpperCase riskLevel @ ''. '' @ recommendation analysis)
                        None (Some analysis)]\<rparr>,
                if has_onComplete e then [OnComplete analysis] else []))
         else
           (st\<lparr>messages := messages st @
                 [bot_message e ''Please enter a valid temperature number.'' None None]\<rparr>,
            []))
      else if currentStep st = ''other_symptoms'' then
        if includes_str lowerText ''yes'' then
          (let analysis =
                 \<lparr>risk_score = 40, risk_level = ''low'',
                  suspected_fever_type = ''General Symptoms'',
                  recommendation =
                    ''Rest and stay hydrated. If symptoms persist, consider consulting a doctor.''\<rparr>
           in (st\<lparr>sessionData := (sessionData st)(''other_symptoms'' \<mapsto> JBool True),
                  currentStep := ''complete'',
                  completed := True,
                  messages := messages st @
                    [bot_message e
                       (''Thank you for the information. '' @ recommendation analysis)
                       None (Some analysis)]\<rparr>,
               if has_onComplete e then [OnComplete analysis] else []))
        else
          (let analysis =
                 \<lparr>risk_score = 20, risk_level = ''low'',
                  suspected_fever_type = ''No Fever'',
                  recommendation =
                    ''You appear to be in good health. Continue monitoring your symptoms.''\<rparr>
           in (st\<lparr>sessionData := (sessionData st)(''other_symptoms'' \<mapsto> JBool False),
                  currentStep := ''complete'',
                  completed := True,
                  messages := messages st @
                    [bot_message e (recommendation analysis) None (Some analysis)]\<rparr>,
               if has_onComplete e then [OnComplete analysis] else []))
      else (st, []))"

text \<open>
  \<open>sendMessage\<close>. A blank text, a request in flight and a completed assessment return
  at once. A session whose id starts with \<open>local-\<close> goes to the local engine. Otherwise
  the answer is posted to the backend; an \<open>ok\<close> reply is applied as it is, and every
  other outcome falls through to the local engine on the step the component holds.
  The local engine reads \<open>currentStep\<close> and \<open>sessionData\<close> of the render that
  created the handler, which \<open>sendMessage\<close> has not changed when it calls the engine.
\<close>

definition sendMessage ::
  "env \<Rightarrow> chat_state \<Rightarrow> string \<Rightarrow> chat_state \<times> effect list" where
  "sendMessage e st txt =
     (if trim txt = [] \<or> loading st \<or> completed st then (st, [])
      else
        let userMessage =
              \<lparr>m_id = toString (now e), m_text = trim txt, m_sender = User,
               m_timestamp = now e, m_question = None, m_analysis = None\<rparr>;
            st1 = st\<lparr>messages := messages st @ [userMessage], input := [],
                     loading := True, error := None\<rparr>;
            isLocalMode = (case sessionId st of
                             None \<Rightarrow> False
                           | Some sid \<Rightarrow> startsWith sid ''local-'');
            local = (case handleLocalResponse e st1 (trim txt) of
                       (st2, effs) \<Rightarrow> (st2\<lparr>loading := False\<rparr>, effs));
            request = Fetch_message (sessionId st) (trim txt);
            warn = Console_warn ''Backend not available, using local mode:''
        in if isLocalMode then local
           else case message_reply e of
             Ok data \<Rightarrow>
               (let st2 = (case md_session_data data of
                             None \<Rightarrow> st1
                           | Some sd \<Rightarrow> st1\<lparr>sessionData := sessionData st1 ++ sd\<rparr>);
                    botMessage =
                      \<lparr>m_id = toString (now e + 1),
                       m_text = or_else (md_message data)
                                  (or_else (md_response data)
                                     ''Thank you for your response.''),
                       m_sender = Bot, m_timestamp = now e,
                       m_question = (case md_next_question data of
                                       Some q \<Rightarrow> Some q
                                     | None \<Rightarrow> md_question data),
                       m_analysis = md_analysis data\<rparr>;
                    st3 = st2\<lparr>messages := messages st2 @ [botMessage]\<rparr>
                in if md_completed data \<or> md_analysis data \<noteq> None then
                     (st3\<lparr>completed := True, loading := False\<rparr>,
                      [request] @
                      (case md_analysis data of
                         None \<Rightarrow> []
                       | Some a \<Rightarrow>
                           (if has_onComplete e then [OnComplete a] else []) @
                           (case sessionId st of
                              None \<Rightarrow> []
                            | Some sid \<Rightarrow>
                                if sid = [] then []
                                else Fetch_submit_report sid a #
                                     (if report_reply e = Rejected
                                      then [Console_error ''Error submitting report:'']
                                      else []))))
                   else
                     (case md_next_step data of
                        None \<Rightarrow> (st3\<lparr>loading := False\<rparr>, [request])
                      | Some step \<Rightarrow>
                          if step = [] then (st3\<lparr>loading := False\<rparr>, [request])
                          else (st3\<lparr>currentStep := step, loading := False\<rparr>, [request])))
           | Not_ok \<Rightarrow> (fst local, request # snd local)
           | Rejected \<Rightarrow> (fst local, request # warn # snd local)
           | Bad_body \<Rightarrow> (fst local, request # warn # snd local))"

text \<open>
  \<open>handleRestart\<close> clears the conversation and starts a session again.
\<close>

definition handleRestart :: "env \<Rightarrow> chat_state \<Rightarrow> chat_state \<times> effect list" where
  "handleRestart e st =
     startSession e
       (st\<lparr>messages := [], sessionData := Map.empty, completed := False,
           currentStep := ''start'', error := None\<rparr>)"

section \<open>The main frontend's chatbot (\<open>frontend/src/components/Chatbot.tsx\<close>)\<close>

text \<open>
  The second copy of the component has the same state and no local engine. Its
  \<open>addMessage\<close> appends a message whose id is \<open>Date.now().toString()\<close>; a text that
  is \<open>undefined\<close> is the empty string here.
\<close>

definition addMessage ::
  "env \<Rightarrow> string \<Rightarrow> sender \<Rightarrow> question option \<Rightarrow> analysis option \<Rightarrow>
     chat_state \<Rightarrow> chat_state" where
  "addMessage e txt who q a st =
     st\<lparr>messages := messages st @
          [\<lparr>m_id = toString (now e), m_text = txt, m_sender = who, m_timestamp = now e,
            m_question = q, m_analysis = a\<rparr>]\<rparr>"

definition text_or_empty :: "string option \<Rightarrow> string" where
  "text_or_empty t = (case t of None \<Rightarrow> [] | Some s \<Rightarrow> s)"

text \<open>
  \<open>startSession\<close> of \<open>Chatbot.tsx\<close>: one \<open>try\<close> around the request. Reading the
  token, a rejected \<open>fetch\<close>, a status that is not \<open>ok\<close> (a \<open>throw\<close> of its own)
  and an unreadable body all end in the \<open>catch\<close>, which sets \<open>error\<close>.
\<close>

definition startSession_tsx :: "env \<Rightarrow> chat_state \<Rightarrow> chat_state \<times> effect list" where
  "startSession_tsx e st =
     (let st1 = st\<lparr>loading := True, error := None\<rparr>;
          failed = st1\<lparr>error := Some ''Failed to start chatbot session'',
                       loading := False\<rparr>;
          logged = Console_error ''Error starting session:''
      in if auth_unreadable e then (failed, [logged])
         else case start_reply e of
           Ok data \<Rightarrow>
             (let st2 = st1\<lparr>sessionId := sd_session_id data\<rparr>;
                  st3 = (case sd_next_question data of
                           None \<Rightarrow> st2
                         | Some q \<Rightarrow>
                             (addMessage e (text_or_empty (q_question q)) Bot (Some q) None st2)
                               \<lparr>currentStep := or_else (q_key q) ''start''\<rparr>)
              in (st3\<lparr>loading := False\<rparr>, [Fetch_start_session]))
         | Not_ok \<Rightarrow> (failed, [Fetch_start_session, logged])
         | Rejected \<Rightarrow> (failed, [Fetch_start_session, logged])
         | Bad_body \<Rightarrow> (failed, [Fetch_start_session, logged]))"

text \<open>
  \<open>handleSend\<close> of \<open>Chatbot.tsx\<close> sends the \<open>input\<close> field. It returns at once on
  a blank input, a request in flight, a completed assessment or a missing session id.
  The reply is applied as it is; every failure sets \<open>error\<close>.
\<close>

definition handleSend :: "env \<Rightarrow> chat_state \<Rightarrow> chat_state \<times> effect list" where
  "handleSend e st =
     (if trim (input st) = [] \<or> loading st \<or> completed st
         \<or> sessionId st = None \<or> sessionId st = Some [] then (st, [])
      else
        let sid = (case sessionId st of None \<Rightarrow> [] | Some i \<Rightarrow> i);
            userMessage = trim (input st);
            st1 = (addMessage e userMessage User None None (st\<lparr>input := []\<rparr>))
                    \<lparr>loading := True, error := None\<rparr>;
            failed = st1\<lparr>error := Some ''Failed to send message. Please try again.'',
                         loading := False\<rparr>;
            logged = Console_error ''Error sending message:'';
            request = Fetch_message (sessionId st) userMessage
        in if auth_unreadable e then (failed, [logged])
           else case message_reply e of
             Ok response \<Rightarrow>
               (let st2 = (case md_session_data response of
                             None \<Rightarrow> st1
                           | Some sd \<Rightarrow> st1\<lparr>sessionData := sd\<rparr>)
                in case md_next_question response of
                     Some q \<Rightarrow>
                       ((addMessage e (text_or_empty (md_message response)) Bot (Some q) None
                           (st2\<lparr>currentStep := or_else (q_key q) []\<rparr>))
                          \<lparr>loading := False\<rparr>,
                        [request])
                   | None \<Rightarrow>
                       (case md_analysis response of
                          None \<Rightarrow> (st2\<lparr>loading := False\<rparr>, [request])
                        | Some a \<Rightarrow>
                            if md_completed response then
                              ((addMessage e (text_or_empty (md_message response)) Bot None
                                  (Some a) (st2\<lparr>completed := True\<rparr>))
                                 \<lparr>loading := False\<rparr>,
                               [request, Fetch_submit_report sid a] @
                               (if report_reply e = Rejected
                                then [Console_error ''Error submitting report:'']
                                else []) @
                               (if has_onComplete e then [OnComplete a] else []))
                            else (st2\<lparr>loading := False\<rparr>, [request])))
           | Not_ok \<Rightarrow> (failed, [request, logged])
           | Rejected \<Rightarrow> (failed, [request, logged])
           | Bad_body \<Rightarrow> (failed, [request, logged]))"

section \<open>Conversations\<close>

text \<open>
  A conversation feeds the answers to \<open>sendMessage\<close> one after the other, each in the
  state the one before left.
\<close>

definition run :: "env \<Rightarrow> chat_state \<Rightarrow> string list \<Rightarrow> chat_state" where
  "run e st answers = foldl (\<lambda>s a. fst (sendMessage e s a)) st answers"

text \<open>
  The analysis that one step of the local engine attaches to the message it appends,
  if it appends one with an analysis.
\<close>

definition emitted_analysis :: "env \<Rightarrow> chat_state \<Rightarrow> string \<Rightarrow> analysis option" where
  "emitted_analysis e st txt =
     (case drop (length (messages st)) (messages (fst (handleLocalResponse e st txt))) of
        [] \<Rightarrow> None
      | m # ms \<Rightarrow> m_analysis m)"

text \<open>
  The sessions of the patient portal in which the backend never ends the assessment
  itself: a session starts when the component mounts or on a restart, with any reply of
  the backend, and each answer is sent while the backend, if it replies at all, replies
  with neither \<open>completed\<close> nor an \<open>analysis\<close>. In these sessions every assessment
  that completes was completed by the local engine, from the start or after the backend
  went away.
\<close>

definition leaves_open :: "env \<Rightarrow> bool" where
  "leaves_open e =
     (case message_reply e of
        Ok data \<Rightarrow> \<not> md_completed data \<and> md_analysis data = None
      | Rejected \<Rightarrow> True
      | Not_ok \<Rightarrow> True
      | Bad_body \<Rightarrow> True)"

inductive_set engine_sessions :: "chat_state set" where
  mount: "fst (startSession e initial_state) \<in> engine_sessions"
| restart: "fst (handleRestart e st) \<in> engine_sessions"
| answer: "s \<in> engine_sessions \<Longrightarrow> leaves_open e \<Longrightarrow>
           fst (sendMessage e s txt) \<in> engine_sessions"

subsection \<open>Example sessions\<close>

text \<open>
  The environment with the backend out of reach at every request, the session that the
  patient portal starts in it, and that session after the answers that lead to the
  temperature question, to the question about other symptoms, and to the end.
\<close>

definition offline_env :: env where
  "offline_env =
     \<lparr>now = 1700000000000, has_onComplete = True, parseFloat = parseFloat_exact,
      start_reply = Rejected, message_reply = Rejected, report_reply = Rejected,
      auth_unreadable = False\<rparr>"

definition local_start :: chat_state where
  "local_start = fst (startSession offline_env initial_state)"

definition at_temperature :: chat_state where
  "at_temperature = run offline_env local_start [''Yes'', ''3 days'']"

definition at_other_symptoms :: chat_state where
  "at_other_symptoms = run offline_env local_start [''No'']"

definition healthy_end :: chat_state where
  "healthy_end = run offline_env local_start [''No'', ''No'']"

text \<open>
  An environment with the backend in reach: it opens the session \<open>session-42\<close> at a
  step of its own, \<open>symptoms\<close>, and answers the next message with an analysis, while
  the request that submits the report is rejected.
\<close>

definition backend_start :: start_data where
  "backend_start =
     \<lparr>sd_session_id = Some ''session-42'', sd_current_step = Some ''symptoms'',
      sd_message = Some ''Which symptoms do you have?'', sd_next_question = None,
      sd_question = None\<rparr>"

definition backend_analysis :: analysis where
  "backend_analysis =
     \<lparr>risk_score = 65, risk_level = ''medium'', suspected_fever_type = ''Dengue'',
      recommendation = ''Please see a doctor within a day.''\<rparr>"

definition backend_done :: message_data where
  "backend_done =
     \<lparr>md_session_data = None, md_message = Some ''Your assessment is ready.'',
      md_response = None, md_next_question = None, md_question = None,
      md_analysis = Some backend_analysis, md_completed = True, md_next_step = None\<rparr>"

definition backend_env :: env where
  "backend_env =
     \<lparr>now = 1700000000000, has_onComplete = True, parseFloat = parseFloat_exact,
      start_reply = Ok backend_start, message_reply = Ok backend_done,
      report_reply = Rejected, auth_unreadable = False\<rparr>"

definition remote_start :: chat_state where
  "remote_start = fst (startSession backend_env initial_state)"

section \<open>Properties of the model\<close>

subsection \<open>Strings and numbers\<close>

text \<open>
  \<open>startsWith\<close> and \<open>includes_str\<close> are the prefix test and the substring test.
\<close>

lemma startsWith_iff: "startsWith s p \<longleftrightarrow> (\<exists>r. s = p @ r)"
  by (induction s p rule: startsWith.induct) auto

lemma includes_str_iff: "includes_str s p \<longleftrightarrow> (\<exists>a b. s = a @ p @ b)"
proof (induction s)
  case Nil
  then show ?case by simp
next
  case (Cons c cs)
  show ?case
  proof
    assume "includes_str (c # cs) p"
    then consider "startsWith (c # cs) p" | "includes_str cs p"
      by auto
    then show "\<exists>a b. c # cs = a @ p @ b"
    proof cases
      case 1
      then obtain r where "c # cs = p @ r"
        by (auto simp: startsWith_iff)
      then have "c # cs = [] @ p @ r" by simp
      then show ?thesis by blast
    next
      case 2
      with Cons.IH obtain a b where "cs = a @ p @ b" by blast
      then have "c # cs = (c # a) @ p @ b" by simp
      then show ?thesis by blast
    qed
  next
    assume "\<exists>a b. c # cs = a @ p @ b"
    then obtain a b where ab: "c # cs = a @ p @ b" by blast
    show "includes_str (c # cs) p"
    proof (cases a)
      case Nil
      with ab have "startsWith (c # cs) p"
        by (auto simp: startsWith_iff)
      then show ?thesis by simp
    next
      case (Cons x a')
      with ab have "cs = a' @ p @ b" by simp
      with Cons.IH have "includes_str cs p" by blast
      then show ?thesis by simp
    qed
  qed
qed

lemma includes_nope_no: "includes_str s ''nope'' \<Longrightarrow> includes_str s ''no''"
proof -
  assume "includes_str s ''nope''"
  then obtain a b where "s = a @ ''nope'' @ b"
    by (auto simp: includes_str_iff)
  then have "s = a @ ''no'' @ (''pe'' @ b)" by simp
  then show ?thesis
    unfolding includes_str_iff by blast
qed

lemma startsWith_append: "startsWith (p @ s) p"
  by (induction p) simp_all

lemma js_gt_39_38: "js_gt t (Fin 39) \<Longrightarrow> js_gt t (Fin 38)"
  by (cases t) auto

lemma js_le_not_gt: "js_le t (Fin b) \<Longrightarrow> \<not> js_gt t (Fin b)"
  by (cases t) auto

lemma js_gt_or_le: "t \<noteq> NaN \<Longrightarrow> js_gt t (Fin b) \<or> js_le t (Fin b)"
  by (cases t) auto

subsection \<open>The local engine, step by step\<close>

lemma local_temperature_number:
  assumes "currentStep st = ''temperature''" and "parseFloat e txt \<noteq> NaN"
  shows "handleLocalResponse e st txt =
    (let temp = parseFloat e txt;
         analysis =
           \<lparr>risk_score = (if js_gt temp (Fin 39) then 75
                          else if js_gt temp (Fin 38) then 50 else 30),
            risk_level = (if js_gt temp (Fin 39) then ''high'' else ''low''),
            suspected_fever_type = ''Viral Fever'',
            recommendation =
              (if js_gt temp (Fin 39) then
                 ''Please consult a doctor immediately. Your temperature is high and requires medical attention.''
               else ''Rest and stay hydrated. Monitor your symptoms.'')\<rparr>
     in (st\<lparr>sessionData := (sessionData st)(''temperature'' \<mapsto> JNum temp),
            currentStep := ''complete'',
            completed := True,
            messages := messages st @
              [bot_message e
                 (''Based on your symptoms, your risk level is ''
                    @ toUpperCase (risk_level analysis) @ ''. '' @ recommendation analysis)
                 None (Some analysis)]\<rparr>,
         if has_onComplete e then [OnComplete analysis] else []))"
  using assms by (simp add: handleLocalResponse_def isNaN_def Let_def)

lemma local_temperature_invalid:
  assumes "currentStep st = ''temperature''" and "parseFloat e txt = NaN"
  shows "handleLocalResponse e st txt =
    (st\<lparr>messages := messages st @
          [bot_message e ''Please enter a valid temperature number.'' None None]\<rparr>, [])"
  using assms by (simp add: handleLocalResponse_def isNaN_def Let_def)

lemma local_other_symptoms:
  assumes "currentStep st = ''other_symptoms''"
  shows "handleLocalResponse e st txt =
    (let yes = includes_str (toLowerCase txt) ''yes'';
         analysis =
           (if yes then
              \<lparr>risk_score = 40, risk_level = ''low'',
               suspected_fever_type = ''General Symptoms'',
               recommendation =
                 ''Rest and stay hydrated. If symptoms persist, consider consulting a doctor.''\<rparr>
            else
              \<lparr>risk_score = 20, risk_level = ''low'',
               suspected_fever_type = ''No Fever'',
               recommendation =
                 ''You appear to be in good health. Continue monitoring your symptoms.''\<rparr>)
     in (st\<lparr>sessionData := (sessionData st)(''other_symptoms'' \<mapsto> JBool yes),
            currentStep := ''complete'',
            completed := True,
            messages := messages st @
              [bot_message e
                 ((if yes then ''Thank you for the information. '' else [])
                    @ recommendation analysis)
                 None (Some analysis)]\<rparr>,
         if has_onComplete e then [OnComplete analysis] else []))"
  using assms by (simp add: handleLocalResponse_def Let_def)

lemma local_fever_duration:
  assumes "currentStep st = ''fever_duration''"
  shows "handleLocalResponse e st txt =
    (st\<lparr>sessionData := (sessionData st)(''fever_duration'' \<mapsto> JStr txt),
        currentStep := ''temperature'',
        messages := messages st @
          [bot_message e ''What is your current body temperature? (in Celsius)''
             None None]\<rparr>, [])"
  using assms by (simp add: handleLocalResponse_def Let_def)

lemma local_unknown_step:
  assumes "currentStep st \<notin> {''start'', ''has_fever'', ''fever_duration'', ''temperature'',
                              ''other_symptoms''}"
  shows "handleLocalResponse e st txt = (st, [])"
  using assms by (simp add: handleLocalResponse_def Let_def)

lemma local_start_step:
  assumes "currentStep st = ''start'' \<or> currentStep st = ''has_fever''"
  shows "\<exists>t q. handleLocalResponse e st txt =
           (st\<lparr>messages := messages st @ [bot_message e t q None]\<rparr>, []) \<or>
         handleLocalResponse e st txt =
           (st\<lparr>sessionData := (sessionData st)(''has_fever'' \<mapsto> JBool True),
               currentStep := ''fever_duration'',
               messages := messages st @ [bot_message e t q None]\<rparr>, []) \<or>
         handleLocalResponse e st txt =
           (st\<lparr>sessionData := (sessionData st)(''has_fever'' \<mapsto> JBool False),
               currentStep := ''other_symptoms'',
               messages := messages st @ [bot_message e t q None]\<rparr>, [])"
  using assms unfolding handleLocalResponse_def Let_def
  by (auto split: if_splits)

subsection \<open>What the engine emits\<close>

lemma emitted_analysis_cases:
  assumes "emitted_analysis e st txt = Some a"
  shows "a = \<lparr>risk_score = 75, risk_level = ''high'', suspected_fever_type = ''Viral Fever'',
              recommendation =
                ''Please consult a doctor immediately. Your temperature is high and requires medical attention.''\<rparr>
       \<or> a = \<lparr>risk_score = 50, risk_level = ''low'', suspected_fever_type = ''Viral Fever'',
                recommendation = ''Rest and stay hydrated. Monitor your symptoms.''\<rparr>
       \<or> a = \<lparr>risk_score = 30, risk_level = ''low'', suspected_fever_type = ''Viral Fever'',
                recommendation = ''Rest and stay hydrated. Monitor your symptoms.''\<rparr>
       \<or> a = \<lparr>risk_score = 40, risk_level = ''low'',
                suspected_fever_type = ''General Symptoms'',
                recommendation =
                  ''Rest and stay hydrated. If symptoms persist, consider consulting a doctor.''\<rparr>
       \<or> a = \<lparr>risk_score = 20, risk_level = ''low'', suspected_fever_type = ''No Fever'',
                recommendation =
                  ''You appear to be in good health. Continue monitoring your symptoms.''\<rparr>"
proof -
  consider (start) "currentStep st = ''start'' \<or> currentStep st = ''has_fever''"
    | (duration) "currentStep st = ''fever_duration''"
    | (temp) "currentStep st = ''temperature''"
    | (other) "currentStep st = ''other_symptoms''"
    | (unknown) "currentStep st \<notin> {''start'', ''has_fever'', ''fever_duration'',
                                     ''temperature'', ''other_symptoms''}"
    by blast
  then show ?thesis
  proof cases
    case start
    from local_start_step [OF start, of e "txt"] assms show ?thesis
      by (auto simp: emitted_analysis_def bot_message_def)
  next
    case duration
    with assms show ?thesis
      by (simp add: emitted_analysis_def local_fever_duration bot_message_def)
  next
    case temp
    show ?thesis
    proof (cases "parseFloat e txt = NaN")
      case True
      with temp assms show ?thesis
        by (simp add: emitted_analysis_def local_temperature_invalid bot_message_def)
    next
      case False
      with temp assms show ?thesis
        by (auto simp: emitted_analysis_def local_temperature_number bot_message_def Let_def
            split: if_splits)
    qed
  next
    case other
    with assms show ?thesis
      by (auto simp: emitted_analysis_def local_other_symptoms bot_message_def Let_def
          split: if_splits)
  next
    case unknown
    with assms show ?thesis
      by (simp add: emitted_analysis_def local_unknown_step)
  qed
qed

lemma local_completes:
  assumes "\<not> completed st" and "completed (fst (handleLocalResponse e st txt))"
  shows "messages (fst (handleLocalResponse e st txt)) \<noteq> [] \<and>
         emitted_analysis e st txt \<noteq> None \<and>
         m_analysis (last (messages (fst (handleLocalResponse e st txt)))) =
           emitted_analysis e st txt"
proof -
  consider (start) "currentStep st = ''start'' \<or> currentStep st = ''has_fever''"
    | (duration) "currentStep st = ''fever_duration''"
    | (temp) "currentStep st = ''temperature''"
    | (other) "currentStep st = ''other_symptoms''"
    | (unknown) "currentStep st \<notin> {''start'', ''has_fever'', ''fever_duration'',
                                     ''temperature'', ''other_symptoms''}"
    by blast
  then show ?thesis
  proof cases
    case start
    from local_start_step [OF start, of e "txt"] assms show ?thesis
      by auto
  next
    case duration
    with assms show ?thesis
      by (simp add: local_fever_duration)
  next
    case temp
    show ?thesis
    proof (cases "parseFloat e txt = NaN")
      case True
      with temp assms show ?thesis
        by (simp add: local_temperature_invalid)
    next
      case False
      with temp show ?thesis
        by (simp add: emitted_analysis_def local_temperature_number bot_message_def Let_def)
    qed
  next
    case other
    then show ?thesis
      by (simp add: emitted_analysis_def local_other_symptoms bot_message_def Let_def)
  next
    case unknown
    with assms show ?thesis
      by (simp add: local_unknown_step)
  qed
qed

subsection \<open>The controller\<close>

lemma sendMessage_completed:
  "completed st \<Longrightarrow> sendMessage e st txt = (st, [])"
  by (simp add: sendMessage_def)

lemma run_completed: "completed st \<Longrightarrow> run e st answers = st"
  by (induction answers arbitrary: st) (simp_all add: run_def sendMessage_completed)

lemma sendMessage_local:
  assumes "sessionId st = Some sid" and "startsWith sid ''local-''"
    and "trim txt \<noteq> []" and "\<not> loading st" and "\<not> completed st"
  shows "sendMessage e st txt =
    (let st1 = st\<lparr>messages := messages st @
                     [\<lparr>m_id = toString (now e), m_text = trim txt, m_sender = User,
                       m_timestamp = now e, m_question = None, m_analysis = None\<rparr>],
                   input := [], loading := True, error := None\<rparr>
     in ((fst (handleLocalResponse e st1 (trim txt)))\<lparr>loading := False\<rparr>,
         snd (handleLocalResponse e st1 (trim txt))))"
  using assms by (simp add: sendMessage_def Let_def split: prod.splits)

lemma sendMessage_by_engine:
  assumes "leaves_open e" and "\<not> completed st"
    and "completed (fst (sendMessage e st txt))"
  shows "\<exists>st1. \<not> completed st1 \<and>
           completed (fst (handleLocalResponse e st1 (trim txt))) \<and>
           fst (sendMessage e st txt) =
             (fst (handleLocalResponse e st1 (trim txt)))\<lparr>loading := False\<rparr>"
proof -
  let ?st1 = "st\<lparr>messages := messages st @
                     [\<lparr>m_id = toString (now e), m_text = trim txt, m_sender = User,
                       m_timestamp = now e, m_question = None, m_analysis = None\<rparr>],
                   input := [], loading := True, error := None\<rparr>"
  have "\<not> completed ?st1" using assms(2) by simp
  moreover have "completed (fst (handleLocalResponse e ?st1 (trim txt))) \<and>
      fst (sendMessage e st txt) =
        (fst (handleLocalResponse e ?st1 (trim txt)))\<lparr>loading := False\<rparr>"
    using assms unfolding sendMessage_def leaves_open_def Let_def
    by (auto split: if_splits reply.splits option.splits prod.splits)
  ultimately show ?thesis by blast
qed

subsection \<open>The example sessions\<close>

lemmas session_defs =
  run_def local_start_def at_temperature_def at_other_symptoms_def healthy_end_def
  remote_start_def offline_env_def backend_env_def backend_start_def backend_done_def
  backend_analysis_def initial_state_def startSession_def sendMessage_def
  handleLocalResponse_def welcome_message_def bot_message_def or_else_def
  trim_def is_space_def toLowerCase_def lower_char_def toUpperCase_def upper_char_def
  isNaN_def Let_def

lemmas parse_defs =
  parseFloat_exact_def trimStart_def is_space_def unsigned_literal_def is_digit_def
  digits_val_def digit_val_def exponent_part_def scale10_def Let_def

lemma local_start_session:
  "sessionId local_start = Some ''local-1700000000000'' \<and> currentStep local_start = ''start''
   \<and> \<not> completed local_start \<and> \<not> loading local_start \<and> error local_start = None
   \<and> messages local_start = [welcome_message offline_env]"
  by (simp add: session_defs toString.simps)

lemma at_temperature_session:
  "sessionId at_temperature = Some ''local-1700000000000''
   \<and> currentStep at_temperature = ''temperature''
   \<and> \<not> completed at_temperature \<and> \<not> loading at_temperature"
  by (simp add: session_defs toString.simps)

lemma at_other_symptoms_session:
  "sessionId at_other_symptoms = Some ''local-1700000000000''
   \<and> currentStep at_other_symptoms = ''other_symptoms''
   \<and> \<not> completed at_other_symptoms \<and> \<not> loading at_other_symptoms"
  by (simp add: session_defs toString.simps)

lemma healthy_end_session:
  "completed healthy_end \<and> currentStep healthy_end = ''complete''"
  by (simp add: session_defs toString.simps)

lemma remote_start_session:
  "sessionId remote_start = Some ''session-42'' \<and> currentStep remote_start = ''symptoms''
   \<and> \<not> completed remote_start \<and> \<not> loading remote_start"
  by (simp add: session_defs)

lemma parse_examples:
  "parseFloat_exact ''39'' = Fin 39" "parseFloat_exact ''38'' = Fin 38"
  "parseFloat_exact ''39.5'' = Fin (79 / 2)" "parseFloat_exact ''37'' = Fin 37"
  "parseFloat_exact ''abc'' = NaN"
  by (simp_all add: parse_defs)

section \<open>Starting a session (C1)\<close>

text \<open>
  C1 as stated fails for one of the two controllers. In \<open>Chatbot.tsx\<close> a rejected
  \<open>StartSession\<close> request ends in the \<open>catch\<close>: the error
  \<open>Failed to start chatbot session\<close> is set, no session id is set and no message is
  shown. There is no local session.
\<close>

theorem startSession_tsx_sets_error:
  "start_reply offline_env = Rejected \<and>
   error (fst (startSession_tsx offline_env initial_state)) =
     Some ''Failed to start chatbot session'' \<and>
   sessionId (fst (startSession_tsx offline_env initial_state)) = None \<and>
   messages (fst (startSession_tsx offline_env initial_state)) = []"
  by (simp add: startSession_tsx_def offline_env_def initial_state_def)

text \<open>
  C1, amended. In the patient portal (\<open>Chatbot.jsx\<close>), when the \<open>StartSession\<close>
  request fails (it is rejected, the status is not \<open>ok\<close>, or the body cannot be
  read), \<open>startSession\<close> falls back to a local session: the id is \<open>local-\<close>
  followed by the clock reading, the step is \<open>start\<close>, the only message is the
  start question, and \<open>error\<close> is \<open>null\<close>. In the main frontend
  (\<open>Chatbot.tsx\<close>) the same failure sets the error
  \<open>Failed to start chatbot session\<close> and leaves the session id and the messages as
  they were.
\<close>

theorem startSession_fallback:
  assumes "start_reply e = Rejected \<or> start_reply e = Not_ok \<or> start_reply e = Bad_body"
  shows "sessionId (fst (startSession e st)) = Some (''local-'' @ toString (now e)) \<and>
         startsWith (''local-'' @ toString (now e)) ''local-'' \<and>
         currentStep (fst (startSession e st)) = ''start'' \<and>
         map m_text (messages (fst (startSession e st))) =
           [''Hello! I'm here to help assess your symptoms. Do you currently have a fever?''] \<and>
         error (fst (startSession e st)) = None \<and>
         \<not> loading (fst (startSession e st)) \<and>
         error (fst (startSession_tsx e st)) = Some ''Failed to start chatbot session'' \<and>
         sessionId (fst (startSession_tsx e st)) = sessionId st \<and>
         messages (fst (startSession_tsx e st)) = messages st"
proof -
  have "startsWith (''local-'' @ toString (now e)) ''local-''"
    by (rule startsWith_append)
  with assms show ?thesis
    by (auto simp: startSession_def startSession_tsx_def welcome_message_def welcome_text_def
        Let_def)
qed

theorem startSession_fallback_witness:
  "start_reply offline_env = Rejected \<and>
   sessionId (fst (startSession offline_env initial_state)) = Some ''local-1700000000000'' \<and>
   currentStep (fst (startSession offline_env initial_state)) = ''start'' \<and>
   error (fst (startSession offline_env initial_state)) = None \<and>
   error (fst (startSession_tsx offline_env initial_state)) =
     Some ''Failed to start chatbot session''"
  using startSession_fallback [of offline_env initial_state]
  by (simp add: offline_env_def toString.simps)

section \<open>The risk score of a temperature (C2)\<close>

text \<open>
  C2. At step \<open>temperature\<close>, when the answer parses as a number \<open>t\<close>, the local
  engine completes the session and attaches an analysis whose risk score is 75 if
  \<open>t > 39\<close>, 50 if \<open>38 < t \<le> 39\<close> and 30 if \<open>t \<le> 38\<close>; one of the three
  cases always holds. The witness reads the boundaries: 39 gives 50 and 38 gives 30.
\<close>

theorem temperature_risk_score:
  assumes step: "currentStep st = ''temperature''"
    and parse: "parseFloat e ans = t" and num: "\<not> isNaN t"
  shows "completed (fst (handleLocalResponse e st ans)) \<and>
         currentStep (fst (handleLocalResponse e st ans)) = ''complete'' \<and>
         sessionData (fst (handleLocalResponse e st ans)) ''temperature'' = Some (JNum t) \<and>
         emitted_analysis e st ans \<noteq> None \<and>
         (js_gt t (Fin 39) \<longrightarrow>
            map_option risk_score (emitted_analysis e st ans) = Some 75) \<and>
         (js_gt t (Fin 38) \<and> js_le t (Fin 39) \<longrightarrow>
            map_option risk_score (emitted_analysis e st ans) = Some 50) \<and>
         (js_le t (Fin 38) \<longrightarrow>
            map_option risk_score (emitted_analysis e st ans) = Some 30) \<and>
         (js_gt t (Fin 39) \<or> js_gt t (Fin 38) \<and> js_le t (Fin 39) \<or> js_le t (Fin 38))"
proof -
  have nn: "parseFloat e ans \<noteq> NaN" "t \<noteq> NaN"
    using parse num by (simp_all add: isNaN_def)
  note eq = local_temperature_number [OF step nn(1)]
  have ea: "map_option risk_score (emitted_analysis e st ans) =
      Some (if js_gt t (Fin 39) then 75 else if js_gt t (Fin 38) then 50 else 30)"
    by (simp add: emitted_analysis_def eq Let_def parse bot_message_def)
  have "emitted_analysis e st ans \<noteq> None"
    using ea by auto
  moreover have "completed (fst (handleLocalResponse e st ans)) \<and>
      currentStep (fst (handleLocalResponse e st ans)) = ''complete'' \<and>
      sessionData (fst (handleLocalResponse e st ans)) ''temperature'' = Some (JNum t)"
    by (simp add: eq Let_def parse)
  moreover have "js_gt t (Fin 39) \<or> js_gt t (Fin 38) \<and> js_le t (Fin 39) \<or> js_le t (Fin 38)"
    using js_gt_or_le [OF nn(2), of 39] js_gt_or_le [OF nn(2), of 38] by blast
  ultimately show ?thesis
    using js_gt_39_38 [of t] js_le_not_gt [of t 39] js_le_not_gt [of t 38]
    by (auto simp: ea)
qed

theorem temperature_risk_score_witness:
  "currentStep at_temperature = ''temperature'' \<and>
   parseFloat offline_env ''39'' = Fin 39 \<and> \<not> isNaN (Fin 39) \<and>
   map_option risk_score (emitted_analysis offline_env at_temperature ''39'') = Some 50 \<and>
   parseFloat offline_env ''38'' = Fin 38 \<and> \<not> isNaN (Fin 38) \<and>
   map_option risk_score (emitted_analysis offline_env at_temperature ''38'') = Some 30 \<and>
   parseFloat offline_env ''39.5'' = Fin (79 / 2) \<and> \<not> isNaN (Fin (79 / 2)) \<and>
   map_option risk_score (emitted_analysis offline_env at_temperature ''39.5'') = Some 75 \<and>
   completed (fst (handleLocalResponse offline_env at_temperature ''39.5''))"
proof -
  have step: "currentStep at_temperature = ''temperature''"
    by (simp add: at_temperature_session)
  have p: "parseFloat offline_env ''39'' = Fin 39" "parseFloat offline_env ''38'' = Fin 38"
    "parseFloat offline_env ''39.5'' = Fin (79 / 2)"
    by (simp_all add: offline_env_def parse_examples)
  have n: "\<not> isNaN (Fin 39)" "\<not> isNaN (Fin 38)" "\<not> isNaN (Fin (79 / 2))"
    by (simp_all add: isNaN_def)
  show ?thesis
    using temperature_risk_score [OF step p(1) n(1)] temperature_risk_score [OF step p(2) n(2)]
      temperature_risk_score [OF step p(3) n(3)] step p n
    by simp
qed

section \<open>Risk level and risk score (C3)\<close>

text \<open>
  C3. In every session that the local engine completes, the last message carries an
  analysis whose level fits its score: \<open>high\<close> exactly above 70, \<open>medium\<close>
  exactly above 50 and up to 70, \<open>low\<close> exactly up to 50; the score is one of 75,
  50, 30, 40 and 20.
\<close>

theorem risk_level_consistent:
  assumes "s \<in> engine_sessions" and "completed s"
  shows "messages s \<noteq> [] \<and>
         (\<exists>a. m_analysis (last (messages s)) = Some a \<and>
              (risk_level a = ''high'') = (70 < risk_score a) \<and>
              (risk_level a = ''medium'') = (50 < risk_score a \<and> risk_score a \<le> 70) \<and>
              (risk_level a = ''low'') = (risk_score a \<le> 50) \<and>
              risk_score a \<in> {75, 50, 30, 40, 20})"
  using assms
proof (induction rule: engine_sessions.induct)
  case (mount e)
  then show ?case
    by (simp add: startSession_def initial_state_def Let_def split: reply.splits)
next
  case (restart e st)
  then show ?case
    by (simp add: handleRestart_def startSession_def Let_def split: reply.splits)
next
  case (answer s e ans)
  show ?case
  proof (cases "completed s")
    case True
    with answer show ?thesis
      by (simp add: sendMessage_completed)
  next
    case False
    from sendMessage_by_engine [OF answer.hyps(2) False answer.prems]
    obtain st1 where st1: "\<not> completed st1"
      "completed (fst (handleLocalResponse e st1 (trim ans)))"
      "fst (sendMessage e s ans) =
         (fst (handleLocalResponse e st1 (trim ans)))\<lparr>loading := False\<rparr>"
      by blast
    from local_completes [OF st1(1) st1(2)]
    obtain a where a: "messages (fst (handleLocalResponse e st1 (trim ans))) \<noteq> []"
      "emitted_analysis e st1 (trim ans) = Some a"
      "m_analysis (last (messages (fst (handleLocalResponse e st1 (trim ans))))) = Some a"
      by auto
    from emitted_analysis_cases [OF a(2)] a(1) a(3) show ?thesis
      unfolding st1(3) by auto
  qed
qed

theorem risk_level_consistent_witness:
  "healthy_end \<in> engine_sessions \<and> completed healthy_end \<and>
   messages healthy_end \<noteq> [] \<and>
   (\<exists>a. m_analysis (last (messages healthy_end)) = Some a \<and>
        (risk_level a = ''high'') = (70 < risk_score a) \<and>
        (risk_level a = ''medium'') = (50 < risk_score a \<and> risk_score a \<le> 70) \<and>
        (risk_level a = ''low'') = (risk_score a \<le> 50) \<and>
        risk_score a \<in> {75, 50, 30, 40, 20})"
proof -
  have "local_start \<in> engine_sessions"
    unfolding local_start_def by (rule engine_sessions.mount)
  moreover have "leaves_open offline_env"
    by (simp add: leaves_open_def offline_env_def)
  ultimately have "fst (sendMessage offline_env (fst (sendMessage offline_env local_start ''No''))
      ''No'') \<in> engine_sessions"
    by (intro engine_sessions.answer)
  then have reach: "healthy_end \<in> engine_sessions"
    by (simp add: healthy_end_def run_def)
  have fin: "completed healthy_end"
    by (simp add: healthy_end_session)
  from risk_level_consistent [OF reach fin] reach fin show ?thesis
    by blast
qed

section \<open>The recommendation (C4)\<close>

text \<open>
  C4 as stated fails: the level \<open>low\<close> comes with more than one recommendation. A
  temperature of 37 and the answer \<open>yes\<close> to the question about other symptoms both
  give the level \<open>low\<close>, the first with
  \<open>Rest and stay hydrated. Monitor your symptoms.\<close> and the second with
  \<open>Rest and stay hydrated. If symptoms persist, consider consulting a doctor.\<close>
\<close>

theorem recommendation_differs_for_low:
  "emitted_analysis offline_env at_temperature ''37'' \<noteq> None \<and>
   emitted_analysis offline_env at_other_symptoms ''yes'' \<noteq> None \<and>
   map_option risk_level (emitted_analysis offline_env at_temperature ''37'') = Some ''low'' \<and>
   map_option risk_level (emitted_analysis offline_env at_other_symptoms ''yes'') = Some ''low'' \<and>
   map_option recommendation (emitted_analysis offline_env at_temperature ''37'') =
     Some ''Rest and stay hydrated. Monitor your symptoms.'' \<and>
   map_option recommendation (emitted_analysis offline_env at_other_symptoms ''yes'') =
     Some ''Rest and stay hydrated. If symptoms persist, consider consulting a doctor.'' \<and>
   map_option recommendation (emitted_analysis offline_env at_temperature ''37'') \<noteq>
     map_option recommendation (emitted_analysis offline_env at_other_symptoms ''yes'')"
proof -
  have t: "currentStep at_temperature = ''temperature''"
    and p: "parseFloat offline_env ''37'' \<noteq> NaN"
    and v: "parseFloat offline_env ''37'' = Fin 37"
    by (simp_all add: at_temperature_session offline_env_def parse_examples)
  have o: "currentStep at_other_symptoms = ''other_symptoms''"
    by (simp add: at_other_symptoms_session)
  have a: "emitted_analysis offline_env at_temperature ''37'' =
      Some \<lparr>risk_score = 30, risk_level = ''low'', suspected_fever_type = ''Viral Fever'',
            recommendation = ''Rest and stay hydrated. Monitor your symptoms.''\<rparr>"
    by (simp add: emitted_analysis_def local_temperature_number [OF t p] v Let_def
        bot_message_def)
  have b: "emitted_analysis offline_env at_other_symptoms ''yes'' =
      Some \<lparr>risk_score = 40, risk_level = ''low'',
            suspected_fever_type = ''General Symptoms'',
            recommendation =
              ''Rest and stay hydrated. If symptoms persist, consider consulting a doctor.''\<rparr>"
    by (simp add: emitted_analysis_def local_other_symptoms [OF o] Let_def bot_message_def
        toLowerCase_def lower_char_def)
  show ?thesis
    by (simp add: a b)
qed

text \<open>
  C4, amended. The recommendation is a function of the suspected fever type and the risk
  level together: two analyses of the local engine with the same
  \<open>suspected_fever_type\<close> and the same \<open>risk_level\<close> have the same
  \<open>recommendation\<close>.
\<close>

theorem recommendation_by_type_and_level:
  assumes "emitted_analysis e st ans = Some a" and "emitted_analysis e' st' ans' = Some b"
    and "risk_level a = risk_level b"
    and "suspected_fever_type a = suspected_fever_type b"
  shows "recommendation a = recommendation b"
  using emitted_analysis_cases [OF assms(1)] emitted_analysis_cases [OF assms(2)]
    assms(3) assms(4)
  by (elim disjE) simp_all

theorem recommendation_by_type_and_level_witness:
  "emitted_analysis offline_env at_temperature ''37'' =
     Some \<lparr>risk_score = 30, risk_level = ''low'', suspected_fever_type = ''Viral Fever'',
           recommendation = ''Rest and stay hydrated. Monitor your symptoms.''\<rparr> \<and>
   emitted_analysis offline_env at_temperature ''39'' =
     Some \<lparr>risk_score = 50, risk_level = ''low'', suspected_fever_type = ''Viral Fever'',
           recommendation = ''Rest and stay hydrated. Monitor your symptoms.''\<rparr>"
proof -
  have t: "currentStep at_temperature = ''temperature''"
    and p: "parseFloat offline_env ''37'' \<noteq> NaN" "parseFloat offline_env ''39'' \<noteq> NaN"
    and v: "parseFloat offline_env ''37'' = Fin 37" "parseFloat offline_env ''39'' = Fin 39"
    by (simp_all add: at_temperature_session offline_env_def parse_examples)
  have a: "emitted_analysis offline_env at_temperature ''37'' =
      Some \<lparr>risk_score = 30, risk_level = ''low'', suspected_fever_type = ''Viral Fever'',
            recommendation = recommendation
              \<lparr>risk_score = 50, risk_level = ''low'', suspected_fever_type = ''Viral Fever'',
               recommendation = ''Rest and stay hydrated. Monitor your symptoms.''\<rparr>\<rparr>"
    by (simp add: emitted_analysis_def local_temperature_number [OF t p(1)] v Let_def
        bot_message_def)
  have b: "emitted_analysis offline_env at_temperature ''39'' =
      Some \<lparr>risk_score = 50, risk_level = ''low'', suspected_fever_type = ''Viral Fever'',
            recommendation = ''Rest and stay hydrated. Monitor your symptoms.''\<rparr>"
    by (simp add: emitted_analysis_def local_temperature_number [OF t p(2)] v Let_def
        bot_message_def)
  from recommendation_by_type_and_level [OF a b] a b show ?thesis
    by simp
qed

section \<open>The answer at step \<open>start\<close> (C5)\<close>

text \<open>
  C5 as stated fails: the letter \<open>y\<close> inside an answer does not make it a yes. The
  answer \<open>okay\<close> contains \<open>y\<close>, and the step stays \<open>start\<close> with
  \<open>has_fever\<close> not recorded.
\<close>

theorem letter_y_inside_is_not_yes:
  "currentStep local_start = ''start'' \<and>
   includes_str (toLowerCase ''okay'') ''y'' \<and>
   currentStep (fst (handleLocalResponse offline_env local_start ''okay'')) = ''start'' \<and>
   sessionData (fst (handleLocalResponse offline_env local_start ''okay'')) ''has_fever'' = None"
  by (simp add: local_start_session)
     (simp add: session_defs)

text \<open>
  C5, amended. At step \<open>start\<close> an answer is a yes exactly when its lowercased text
  contains \<open>yes\<close> or \<open>yep\<close> or is the single letter \<open>y\<close>: the step becomes
  \<open>fever_duration\<close> and \<open>has_fever = true\<close> is recorded. An answer that is not
  a yes is a no when its lowercased text contains \<open>no\<close> or \<open>nope\<close> or is the
  single letter \<open>n\<close>: the step becomes \<open>other_symptoms\<close> and
  \<open>has_fever = false\<close> is recorded. For every other answer, such as \<open>maybe\<close>,
  the only change is the appended message \<open>Please answer with Yes or No.\<close>
\<close>

theorem start_answer_classified:
  assumes "currentStep st = ''start''"
  shows "(includes_str (toLowerCase ans) ''yes'' \<or> includes_str (toLowerCase ans) ''yep''
            \<or> toLowerCase ans = ''y'' \<longrightarrow>
          currentStep (fst (handleLocalResponse e st ans)) = ''fever_duration'' \<and>
          sessionData (fst (handleLocalResponse e st ans)) =
            (sessionData st)(''has_fever'' \<mapsto> JBool True)) \<and>
         (\<not> (includes_str (toLowerCase ans) ''yes'' \<or> includes_str (toLowerCase ans) ''yep''
               \<or> toLowerCase ans = ''y'') \<and>
          (includes_str (toLowerCase ans) ''no'' \<or> includes_str (toLowerCase ans) ''nope''
               \<or> toLowerCase ans = ''n'') \<longrightarrow>
          currentStep (fst (handleLocalResponse e st ans)) = ''other_symptoms'' \<and>
          sessionData (fst (handleLocalResponse e st ans)) =
            (sessionData st)(''has_fever'' \<mapsto> JBool False)) \<and>
         (\<not> (includes_str (toLowerCase ans) ''yes'' \<or> includes_str (toLowerCase ans) ''yep''
               \<or> toLowerCase ans = ''y'') \<and>
          \<not> (includes_str (toLowerCase ans) ''no'' \<or> includes_str (toLowerCase ans) ''nope''
               \<or> toLowerCase ans = ''n'') \<longrightarrow>
          handleLocalResponse e st ans =
            (st\<lparr>messages := messages st @
                  [bot_message e ''Please answer with Yes or No.'' None None]\<rparr>, []))"
  using assms by (simp add: handleLocalResponse_def Let_def)

theorem start_answer_classified_witness:
  "currentStep local_start = ''start'' \<and>
   \<not> (includes_str (toLowerCase ''maybe'') ''yes'' \<or> includes_str (toLowerCase ''maybe'') ''yep''
        \<or> toLowerCase ''maybe'' = ''y'') \<and>
   \<not> (includes_str (toLowerCase ''maybe'') ''no'' \<or> includes_str (toLowerCase ''maybe'') ''nope''
        \<or> toLowerCase ''maybe'' = ''n'') \<and>
   handleLocalResponse offline_env local_start ''maybe'' =
     (local_start\<lparr>messages := messages local_start @
        [bot_message offline_env ''Please answer with Yes or No.'' None None]\<rparr>, []) \<and>
   (includes_str (toLowerCase ''Yes'') ''yes'') \<and>
   currentStep (fst (handleLocalResponse offline_env local_start ''Yes'')) = ''fever_duration'' \<and>
   (includes_str (toLowerCase ''No'') ''no'') \<and>
   currentStep (fst (handleLocalResponse offline_env local_start ''No'')) = ''other_symptoms''"
proof -
  have s: "currentStep local_start = ''start''"
    by (simp add: local_start_session)
  have m: "toLowerCase ''maybe'' = ''maybe''" "toLowerCase ''Yes'' = ''yes''"
    "toLowerCase ''No'' = ''no''"
    by (simp_all add: toLowerCase_def lower_char_def)
  show ?thesis
    using start_answer_classified [OF s, of "''maybe''" offline_env]
      start_answer_classified [OF s, of "''Yes''" offline_env]
      start_answer_classified [OF s, of "''No''" offline_env] s
    by (simp add: m)
qed

section \<open>An answer at step \<open>temperature\<close> that is not a number (C6)\<close>

text \<open>
  C6. At step \<open>temperature\<close>, when the answer does not parse as a number, the only
  change is the appended message \<open>Please enter a valid temperature number.\<close>: the
  step, the answers and the completion flag stay as they were, no analysis is attached
  and nothing is called.
\<close>

theorem invalid_temperature_reprompts:
  assumes "currentStep st = ''temperature''" and "isNaN (parseFloat e ans)"
  shows "handleLocalResponse e st ans =
           (st\<lparr>messages := messages st @
                 [bot_message e ''Please enter a valid temperature number.'' None None]\<rparr>,
            []) \<and>
         currentStep (fst (handleLocalResponse e st ans)) = ''temperature'' \<and>
         sessionData (fst (handleLocalResponse e st ans)) = sessionData st \<and>
         completed (fst (handleLocalResponse e st ans)) = completed st \<and>
         emitted_analysis e st ans = None \<and>
         m_text (last (messages (fst (handleLocalResponse e st ans)))) =
           ''Please enter a valid temperature number.''"
  using assms
  by (simp add: local_temperature_invalid isNaN_def emitted_analysis_def bot_message_def)

theorem invalid_temperature_reprompts_witness:
  "currentStep at_temperature = ''temperature'' \<and> isNaN (parseFloat offline_env ''abc'') \<and>
   currentStep (fst (handleLocalResponse offline_env at_temperature ''abc'')) = ''temperature'' \<and>
   \<not> completed (fst (handleLocalResponse offline_env at_temperature ''abc'')) \<and>
   emitted_analysis offline_env at_temperature ''abc'' = None \<and>
   m_text (last (messages (fst (handleLocalResponse offline_env at_temperature ''abc'')))) =
     ''Please enter a valid temperature number.''"
proof -
  have s: "currentStep at_temperature = ''temperature''"
    and c: "\<not> completed at_temperature"
    by (simp_all add: at_temperature_session)
  have n: "isNaN (parseFloat offline_env ''abc'')"
    by (simp add: isNaN_def offline_env_def parse_examples)
  from invalid_temperature_reprompts [OF s n] s c n show ?thesis
    by (simp add: bot_message_def)
qed

section \<open>A step that the local engine does not know (C7)\<close>

text \<open>
  C7 as stated fails: the local engine does not restart at \<open>start\<close>. A session that
  the backend opened at its step \<open>symptoms\<close> and that loses the backend keeps the
  step \<open>symptoms\<close>; the answer is shown and gets no reply.
\<close>

theorem unknown_step_not_restarted:
  "currentStep remote_start = ''symptoms'' \<and>
   handleLocalResponse offline_env remote_start ''headache'' = (remote_start, []) \<and>
   currentStep (fst (sendMessage offline_env remote_start ''headache'')) = ''symptoms'' \<and>
   map m_text (messages (fst (sendMessage offline_env remote_start ''headache''))) =
     [''Which symptoms do you have?'', ''headache''] \<and>
   snd (sendMessage offline_env remote_start ''headache'') =
     [Fetch_message (Some ''session-42'') ''headache'',
      Console_warn ''Backend not available, using local mode:'']"
  by (simp add: session_defs)

text \<open>
  C7, amended. For an answer at a step that is none of \<open>start\<close>, \<open>has_fever\<close>,
  \<open>fever_duration\<close>, \<open>temperature\<close> and \<open>other_symptoms\<close>, the local engine
  changes nothing and calls nothing.
\<close>

theorem unknown_step_ignored:
  assumes "currentStep st \<notin> {''start'', ''has_fever'', ''fever_duration'', ''temperature'',
                              ''other_symptoms''}"
  shows "handleLocalResponse e st ans = (st, [])"
  using assms by (simp add: handleLocalResponse_def Let_def)

theorem unknown_step_ignored_witness:
  "currentStep remote_start \<notin> {''start'', ''has_fever'', ''fever_duration'', ''temperature'',
                               ''other_symptoms''} \<and>
   handleLocalResponse offline_env remote_start ''headache'' = (remote_start, [])"
proof -
  have s: "currentStep remote_start \<notin> {''start'', ''has_fever'', ''fever_duration'',
      ''temperature'', ''other_symptoms''}"
    by (simp add: remote_start_session)
  from unknown_step_ignored [OF s] s show ?thesis
    by simp
qed

section \<open>Answers after completion (C8)\<close>

text \<open>
  C8. Once \<open>completed\<close> is true, an answer changes no field of the state and sends
  nothing, in \<open>sendMessage\<close> of the patient portal and in \<open>handleSend\<close> of the
  main frontend alike; so however many answers follow, the state stays the same.
\<close>

theorem completed_ignores_answers:
  assumes "completed st"
  shows "sendMessage e st ans = (st, []) \<and> handleSend e st = (st, []) \<and>
         run e st answers = st"
  using assms by (simp add: sendMessage_def handleSend_def run_completed)

theorem completed_ignores_answers_witness:
  "completed healthy_end \<and> sendMessage offline_env healthy_end ''Yes'' = (healthy_end, []) \<and>
   handleSend offline_env healthy_end = (healthy_end, []) \<and>
   run offline_env healthy_end [''Yes'', ''39.5''] = healthy_end"
proof -
  have c: "completed healthy_end"
    by (simp add: healthy_end_session)
  from completed_ignores_answers [OF c] c show ?thesis
    by simp
qed

section \<open>Submitting the report (C9)\<close>

text \<open>
  C9 as stated fails in local mode: when the local engine completes the session, the
  analysis goes to \<open>onComplete\<close> and no request is sent.
\<close>

theorem local_completion_sends_no_report:
  "sessionId at_temperature = Some ''local-1700000000000'' \<and>
   completed (fst (sendMessage offline_env at_temperature ''39.5'')) \<and>
   map_option risk_score
     (m_analysis (last (messages (fst (sendMessage offline_env at_temperature ''39.5''))))) =
     Some 75 \<and>
   snd (sendMessage offline_env at_temperature ''39.5'') =
     [OnComplete
        \<lparr>risk_score = 75, risk_level = ''high'', suspected_fever_type = ''Viral Fever'',
         recommendation =
           ''Please consult a doctor immediately. Your temperature is high and requires medical attention.''\<rparr>]"
proof -
  have s: "sessionId at_temperature = Some ''local-1700000000000''"
    "\<not> loading at_temperature" "\<not> completed at_temperature"
    "currentStep at_temperature = ''temperature''"
    by (simp_all add: at_temperature_session)
  have l: "startsWith ''local-1700000000000'' ''local-''" and t: "trim ''39.5'' \<noteq> []"
    and tt: "trim ''39.5'' = ''39.5''"
    by (simp_all add: trim_def is_space_def)
  have p: "parseFloat offline_env ''39.5'' \<noteq> NaN" "parseFloat offline_env ''39.5'' = Fin (79 / 2)"
    "has_onComplete offline_env"
    by (simp_all add: offline_env_def parse_examples)
  show ?thesis
    by (simp add: sendMessage_local [OF s(1) l t s(2) s(3)] tt Let_def
        local_temperature_number s(4) p s(1) bot_message_def)
qed

text \<open>
  C9, amended. When the backend answers a message of a session that is not local with an
  analysis, and the session id is not empty, the controller marks the session completed,
  shows the analysis and posts the session id and the analysis to the report endpoint.
  The outcome of that request does not change the state: a rejected request is logged
  and the session stays completed.
\<close>

theorem remote_completion_submits_report:
  assumes "sessionId st = Some sid" and "sid \<noteq> []" and "\<not> startsWith sid ''local-''"
    and "trim ans \<noteq> []" and "\<not> loading st" and "\<not> completed st"
    and "message_reply e = Ok data" and "md_analysis data = Some a"
  shows "Fetch_submit_report sid a \<in> set (snd (sendMessage e st ans)) \<and>
         completed (fst (sendMessage e st ans)) \<and>
         m_analysis (last (messages (fst (sendMessage e st ans)))) = Some a \<and>
         fst (sendMessage (e\<lparr>report_reply := r\<rparr>) st ans) = fst (sendMessage e st ans) \<and>
         completed (fst (sendMessage (e\<lparr>report_reply := Rejected\<rparr>) st ans)) \<and>
         Console_error ''Error submitting report:''
           \<in> set (snd (sendMessage (e\<lparr>report_reply := Rejected\<rparr>) st ans))"
  using assms by (simp add: sendMessage_def Let_def split: option.splits)

theorem remote_completion_submits_report_witness:
  "sessionId remote_start = Some ''session-42'' \<and> ''session-42'' \<noteq> [] \<and>
   \<not> startsWith ''session-42'' ''local-'' \<and> trim ''headache'' \<noteq> [] \<and>
   \<not> loading remote_start \<and> \<not> completed remote_start \<and>
   message_reply backend_env = Ok backend_done \<and>
   md_analysis backend_done = Some backend_analysis \<and>
   report_reply backend_env = Rejected \<and>
   Fetch_submit_report ''session-42'' backend_analysis
     \<in> set (snd (sendMessage backend_env remote_start ''headache'')) \<and>
   completed (fst (sendMessage backend_env remote_start ''headache'')) \<and>
   m_analysis (last (messages (fst (sendMessage backend_env remote_start ''headache'')))) =
     Some backend_analysis \<and>
   fst (sendMessage (backend_env\<lparr>report_reply := Ok ()\<rparr>) remote_start ''headache'') =
     fst (sendMessage backend_env remote_start ''headache'')"
proof -
  have s: "sessionId remote_start = Some ''session-42''"
    "\<not> loading remote_start" "\<not> completed remote_start"
    by (simp_all add: remote_start_session)
  have i: "''session-42'' \<noteq> []" "\<not> startsWith ''session-42'' ''local-''"
    "trim ''headache'' \<noteq> []"
    by (simp_all add: trim_def is_space_def)
  have b: "message_reply backend_env = Ok backend_done"
    "md_analysis backend_done = Some backend_analysis"
    "report_reply backend_env = Rejected"
    by (simp_all add: backend_env_def backend_done_def)
  from remote_completion_submits_report [OF s(1) i s(2) s(3) b(1) b(2), of "Ok ()"] s i b
  show ?thesis
    by simp
qed

section \<open>The answer at step \<open>other_symptoms\<close> (C10)\<close>

text \<open>
  C10. At step \<open>other_symptoms\<close> every answer completes the session. An answer whose
  lowercased text does not contain \<open>yes\<close> records \<open>other_symptoms = false\<close> and
  gives the analysis with score 20, level \<open>low\<close> and type \<open>No Fever\<close>.
\<close>

theorem other_symptoms_always_completes:
  assumes "currentStep st = ''other_symptoms''"
  shows "completed (fst (handleLocalResponse e st ans)) \<and>
         currentStep (fst (handleLocalResponse e st ans)) = ''complete'' \<and>
         emitted_analysis e st ans \<noteq> None \<and>
         (\<not> includes_str (toLowerCase ans) ''yes'' \<longrightarrow>
            sessionData (fst (handleLocalResponse e st ans)) =
              (sessionData st)(''other_symptoms'' \<mapsto> JBool False) \<and>
            emitted_analysis e st ans =
              Some \<lparr>risk_score = 20, risk_level = ''low'', suspected_fever_type = ''No Fever'',
                    recommendation =
                      ''You appear to be in good health. Continue monitoring your symptoms.''\<rparr>)"
  by (simp add: local_other_symptoms [OF assms] emitted_analysis_def bot_message_def Let_def)

theorem other_symptoms_always_completes_witness:
  "currentStep at_other_symptoms = ''other_symptoms'' \<and>
   \<not> includes_str (toLowerCase ''maybe'') ''yes'' \<and>
   completed (fst (handleLocalResponse offline_env at_other_symptoms ''maybe'')) \<and>
   sessionData (fst (handleLocalResponse offline_env at_other_symptoms ''maybe''))
     ''other_symptoms'' = Some (JBool False) \<and>
   emitted_analysis offline_env at_other_symptoms ''maybe'' =
     Some \<lparr>risk_score = 20, risk_level = ''low'', suspected_fever_type = ''No Fever'',
           recommendation =
             ''You appear to be in good health. Continue monitoring your symptoms.''\<rparr>"
proof -
  have s: "currentStep at_other_symptoms = ''other_symptoms''"
    by (simp add: at_other_symptoms_session)
  have m: "\<not> includes_str (toLowerCase ''maybe'') ''yes''"
    by (simp add: toLowerCase_def lower_char_def)
  from other_symptoms_always_completes [OF s, of offline_env "''maybe''"] s m show ?thesis
    by simp
qed

end
